theory Spec2Isabelle
  imports Main "HOL-Library.Word"
begin

unbundle bit_operations_syntax

section \<open>GigEConfig: address formatting\<close>

text \<open>
  The helpers of \<^verbatim>\<open>GigEConfig.cpp\<close> that render the integer address nodes of a
  GigE camera as text. An \<^verbatim>\<open>int64_t\<close> is a \<^typ>\<open>64 word\<close>, an
  \<^verbatim>\<open>unsigned int\<close> a \<^typ>\<open>32 word\<close>; the text written to the
  \<^verbatim>\<open>ostringstream\<close> is a \<^typ>\<open>string\<close>.
\<close>

type_synonym int64_t = "64 word"
type_synonym uint = "32 word"

text \<open>
  The digit characters an \<^verbatim>\<open>ostream\<close> writes: \<open>0\<close> to \<open>9\<close>, and with
  \<^verbatim>\<open>std::uppercase\<close> the letters \<open>A\<close> to \<open>F\<close> for the values ten to fifteen.
\<close>

definition digit_char :: "nat \<Rightarrow> char" where
  "digit_char d = ''0123456789ABCDEF'' ! d"

text \<open>
  \<^verbatim>\<open>operator<<\<close> on an unsigned integer in the default base: the decimal digits,
  most significant first, with no leading zero (and \<open>0\<close> for zero).
\<close>

fun show_dec :: "nat \<Rightarrow> string" where
  "show_dec n = (if n < 10 then [digit_char n]
                 else show_dec (n div 10) @ [digit_char (n mod 10)])"

declare show_dec.simps [simp del]

text \<open>
  \<^verbatim>\<open>operator<<\<close> on a non-negative integer under \<^verbatim>\<open>std::hex\<close> and
  \<^verbatim>\<open>std::uppercase\<close>: the hexadecimal digits, most significant first.
\<close>

fun show_hex :: "nat \<Rightarrow> string" where
  "show_hex n = (if n < 16 then [digit_char n]
                 else show_hex (n div 16) @ [digit_char (n mod 16)])"

declare show_hex.simps [simp del]

text \<open>
  \<^verbatim>\<open>std::setfill(c)\<close> with \<^verbatim>\<open>std::setw(w)\<close>: a field shorter than \<open>w\<close> is padded
  on the left with \<open>c\<close>; a longer one is written in full.
\<close>

definition setw_fill :: "nat \<Rightarrow> char \<Rightarrow> string \<Rightarrow> string" where
  "setw_fill w c s = replicate (w - length s) c @ s"

text \<open>
  \<^verbatim>\<open>gcstring GetDottedAddress(int64_t value)\<close>: the value is cast to
  \<^verbatim>\<open>unsigned int\<close>, and each of its four bytes is masked out, shifted down and
  written in decimal, with dots between.
\<close>

definition GetDottedAddress :: "int64_t \<Rightarrow> string" where
  "GetDottedAddress val =
     (let inputValue = (ucast val :: uint) in
        show_dec (unat (drop_bit 24 (inputValue AND 0xFF000000))) @ ''.'' @
        show_dec (unat (drop_bit 16 (inputValue AND 0x00FF0000))) @ ''.'' @
        show_dec (unat (drop_bit 8 (inputValue AND 0x0000FF00))) @ ''.'' @
        show_dec (unat (inputValue AND 0x000000FF)))"

text \<open>
  \<^verbatim>\<open>gcstring GetMACAddress(int64_t value)\<close>: six fields, each a masked byte of the
  \<^verbatim>\<open>long long\<close> shifted down, written in upper-case hexadecimal in a field of
  width two filled with \<open>0\<close>, with colons between.
\<close>

definition hex_field :: "int64_t \<Rightarrow> string" where
  "hex_field x = setw_fill 2 (CHR ''0'') (show_hex (unat x))"

definition GetMACAddress :: "int64_t \<Rightarrow> string" where
  "GetMACAddress val =
     (let inputValue = val in
        hex_field (drop_bit 40 (inputValue AND 0xFF0000000000)) @ '':'' @
        hex_field (drop_bit 32 (inputValue AND 0x00FF00000000)) @ '':'' @
        hex_field (drop_bit 24 (inputValue AND 0x0000FF000000)) @ '':'' @
        hex_field (drop_bit 16 (inputValue AND 0x000000FF0000)) @ '':'' @
        hex_field (drop_bit 8 (inputValue AND 0x00000000FF00)) @ '':'' @
        hex_field (inputValue AND 0x0000000000FF))"

text \<open>
  \<^verbatim>\<open>std::replace(first, last, old, new)\<close>: every element equal to \<open>old\<close> is
  overwritten with \<open>new\<close>, the others are left as they are.
\<close>

fun std_replace :: "string \<Rightarrow> char \<Rightarrow> char \<Rightarrow> string" where
  "std_replace [] old new = []"
| "std_replace (c # cs) old new = (if c = old then new else c) # std_replace cs old new"

text \<open>
  \<^verbatim>\<open>std::string GetMACAddress(const char* macAddrString)\<close>: the overload that
  normalises the separators of a MAC address given on the command line.
\<close>

definition GetMACAddressStr :: "string \<Rightarrow> string" where
  "GetMACAddressStr macAddrString =
     (let macAddress = macAddrString in std_replace macAddress (CHR ''-'') (CHR '':''))"


section \<open>GigEConfig: the command line\<close>

text \<open>
  What \<^verbatim>\<open>main\<close> does besides returning: text written to \<^verbatim>\<open>cout\<close>, and
  calls of the four operations that talk to the cameras through the SDK. Their bodies
  only read the topology and print (or execute \<^verbatim>\<open>AutoForceIP\<close>); none of them
  sets the validity flag or the exit code, so each is one event here.
\<close>

datatype effect =
    Cout string
  | ListAllDeviceInfo
  | AutoConfigure
  | ListDeviceInfoBySerial string
  | ListDeviceInfoByMAC string

definition endl :: string where
  "endl = [CHR 0x0A]"

definition tab :: string where
  "tab = [CHR 0x09]"

text \<open>Constants for validating proper user specified inputs.\<close>

definition zeroSerial :: string where
  "zeroSerial = ''0''"

definition zeroIPAddress :: string where
  "zeroIPAddress = ''0.0.0.0''"

definition zeroMACAddress :: string where
  "zeroMACAddress = ''00:00:00:00''"

definition Usage :: "effect list" where
  "Usage =
     [Cout (endl @ ''Usage:'' @ endl @ endl),
      Cout (''GigEConfig [-a | -s SerialNumber | -m MACAddress]'' @ endl),
      Cout (''GigEConfig -s <SerialNumber> -i <ipAddress> -n <netMask> -g <gateway>'' @ endl),
      Cout (''GigEConfig -m <MACAddress> -i <ipAddress> -n <netMask> -g <gateway>'' @ endl),
      Cout (endl @ ''Options:'' @ endl),
      Cout (''No arguments will list all discoverable cameras'' @ endl),
      Cout (''-a : Auto-configure all discoverable cameras'' @ endl),
      Cout (''-s : Serial number is used to specify camera'' @ endl),
      Cout (''-m : MAC address is used to specify camera'' @ endl),
      Cout (''     Bytes of MAC address must be separated by either a ':' or '-' character'' @ endl),
      Cout (''-i : IP-address to assign to camera. Cannot be all zeros.'' @ endl),
      Cout (''-n : Subnet mask to assign to camera. Cannot be all zeros.'' @ endl),
      Cout (''-g : Default gateway to assign to camera. Cannot be all zeros.'' @ endl),
      Cout (endl @ endl)]"

text \<open>
  \<^verbatim>\<open>ConfigureCamera\<close> takes the five strings and only prints that the SDK cannot
  force an address onto a device.
\<close>

definition ConfigureCamera :: "string \<Rightarrow> string \<Rightarrow> string \<Rightarrow> string \<Rightarrow> string \<Rightarrow> effect list" where
  "ConfigureCamera serial macAddress ipAddress netMask gateway =
     [Cout (''Spinnaker currently does not support forcing specific IP address, netmask and gateway to device!'' @ endl)]"

text \<open>The five \<^verbatim>\<open>std::string\<close> locals of \<^verbatim>\<open>main\<close>, all empty at first.\<close>

record options =
  serialNumber :: string
  macAddress :: string
  ipAddress :: string
  subnetMask :: string
  gateway :: string

definition no_options :: options where
  "no_options = \<lparr>serialNumber = [], macAddress = [], ipAddress = [], subnetMask = [], gateway = []\<rparr>"

text \<open>
  The body of the loop of \<^verbatim>\<open>case 9\<close>: the \<^verbatim>\<open>strcmp\<close> chain on the flag
  \<^verbatim>\<open>argv[i]\<close>, storing the value \<^verbatim>\<open>argv[i + 1]\<close>. A flag that is none of the
  five leaves the locals as they are.
\<close>

definition parse_pair :: "string \<Rightarrow> string \<Rightarrow> options \<Rightarrow> options" where
  "parse_pair flag v opts =
     (if flag = ''-s'' \<or> flag = ''-S'' then opts\<lparr>serialNumber := v\<rparr>
      else if flag = ''-m'' \<or> flag = ''-M'' then opts\<lparr>macAddress := GetMACAddressStr v\<rparr>
      else if flag = ''-i'' \<or> flag = ''-I'' then opts\<lparr>ipAddress := v\<rparr>
      else if flag = ''-n'' \<or> flag = ''-N'' then opts\<lparr>subnetMask := v\<rparr>
      else if flag = ''-g'' \<or> flag = ''-G'' then opts\<lparr>gateway := v\<rparr>
      else opts)"

text \<open>
  \<^verbatim>\<open>for (int i = 1; i < argc; i = i + 2)\<close>. It runs only under \<open>argc = 9\<close>, where
  \<open>i\<close> is 1, 3, 5, 7 and \<open>i + 1\<close> is within the array.
\<close>

function parse_loop :: "nat \<Rightarrow> string list \<Rightarrow> options \<Rightarrow> options" where
  "parse_loop i argv opts =
     (if i < length argv
      then parse_loop (i + 2) argv (parse_pair (argv ! i) (argv ! (i + 1)) opts)
      else opts)"
  by pat_completeness auto
termination
  by (relation "measure (\<lambda>(i, argv, opts). length argv - i)") auto

declare parse_loop.simps [simp del]

text \<open>The condition under which \<^verbatim>\<open>case 9\<close> calls \<^verbatim>\<open>ConfigureCamera\<close>.\<close>

definition options_valid :: "options \<Rightarrow> bool" where
  "options_valid opts =
     ((serialNumber opts \<noteq> zeroSerial \<or> macAddress opts \<noteq> zeroMACAddress) \<and>
      ipAddress opts \<noteq> zeroIPAddress \<and> subnetMask opts \<noteq> zeroIPAddress \<and>
      gateway opts \<noteq> zeroIPAddress)"

text \<open>
  The \<^verbatim>\<open>switch (argc)\<close>: the effects of the selected case and the value of
  \<^verbatim>\<open>bCommandIsValid\<close> after it.
\<close>

definition dispatch :: "string list \<Rightarrow> effect list \<times> bool" where
  "dispatch argv =
     (if length argv = 1 then ([ListAllDeviceInfo], True)
      else if length argv = 2 then
        (if argv ! 1 = ''-a'' \<or> argv ! 1 = ''-A'' then ([AutoConfigure], True)
         else ([], False))
      else if length argv = 3 then
        (if argv ! 1 = ''-s'' \<or> argv ! 1 = ''-S''
         then ([ListDeviceInfoBySerial (argv ! 2)], True)
         else if argv ! 1 = ''-m'' \<or> argv ! 1 = ''-M''
         then ([ListDeviceInfoByMAC (GetMACAddressStr (argv ! 2))], True)
         else ([], False))
      else if length argv = 9 then
        (let opts = parse_loop 1 argv no_options in
           if options_valid opts
           then (ConfigureCamera (serialNumber opts) (macAddress opts) (ipAddress opts)
                   (subnetMask opts) (gateway opts), True)
           else ([], False))
      else ([], False))"

definition banner :: "effect list" where
  "banner = [Cout (endl @ ''*** FLIR GigE Config Utility ***'' @ endl @ endl)]"

text \<open>
  \<^verbatim>\<open>int main(int argc, char** argv)\<close>: \<open>argc\<close> is the length of the argument
  list, whose first entry is the program's name. The result is what was done, in order,
  and the exit code.
\<close>

definition main :: "string list \<Rightarrow> effect list \<times> int" where
  "main argv =
     (case dispatch argv of
        (done, bCommandIsValid) \<Rightarrow>
          if \<not> bCommandIsValid then (banner @ done @ Usage, - 1)
          else (banner @ done, 0))"

subsection \<open>The claims' own words\<close>

text \<open>
  A byte written as a pair of upper-case hexadecimal digits, the high nibble first: what
  the interface description calls a byte pair zero-padded to width two.
\<close>

definition hex_pair :: "nat \<Rightarrow> string" where
  "hex_pair b = [digit_char (b div 16), digit_char (b mod 16)]"

text \<open>The number that a string of decimal digits denotes, read from the left.\<close>

definition dec_value :: "string \<Rightarrow> nat" where
  "dec_value s = foldl (\<lambda>a c. 10 * a + (of_char c - 48)) 0 s"

text \<open>The lower-case counterpart of an upper-case option flag; any other string is kept.\<close>

definition lower_flag :: "string \<Rightarrow> string" where
  "lower_flag f =
     (if f = ''-A'' then ''-a'' else if f = ''-S'' then ''-s''
      else if f = ''-M'' then ''-m'' else if f = ''-I'' then ''-i''
      else if f = ''-N'' then ''-n'' else if f = ''-G'' then ''-g'' else f)"

text \<open>
  The arguments after the program's name, with the flag of every flag-value pair (and a
  trailing lone flag) put in lower case and the values left alone.
\<close>

fun lower_flags :: "string list \<Rightarrow> string list" where
  "lower_flags (f # v # rest) = lower_flag f # v # lower_flags rest"
| "lower_flags [f] = [lower_flag f]"
| "lower_flags [] = []"

section \<open>The topology registry\<close>

text \<open>
  \<^verbatim>\<open>EnumerationEvents.cpp\<close> drives the SDK's system object: it refreshes the
  interface list, reads it, and registers event handlers on the system and on every
  interface. The classes \<^verbatim>\<open>System\<close>, \<^verbatim>\<open>Interface\<close>, \<^verbatim>\<open>InterfaceList\<close> and
  \<^verbatim>\<open>CameraList\<close> of the SDK are not among the sources; only their callers are. Their
  data and operations are taken from the design description, sections 3, 4.1, 4.2 and 7.
\<close>

text \<open>
  Modelled from the spec: the error codes of the SDK, which is missing from the sources;
  the taxonomy of section 7.
\<close>

datatype topology_error =
    EnumerationError
  | StaleHandle
  | AlreadyReleased
  | InvalidAddress
  | NotSupported

text \<open>
  Modelled from the spec: the identity of a camera in the SDK, which is missing from the
  sources; section 3 gives it as a 64-bit serial number and a display string.
\<close>

record DeviceIdentity =
  serial :: "64 word"
  display :: string

text \<open>
  Modelled from the spec: the interface types that the missing SDK reports, enumerated
  in section 3.
\<close>

datatype InterfaceType = GEV | USB3 | Other

text \<open>
  Modelled from the spec: the identity of an interface in the missing SDK; section 3
  gives it as an opaque string and the ordinal assigned by the refresh that listed it.
\<close>

record InterfaceIdentity =
  interfaceID :: string
  ordinal :: nat

text \<open>
  Modelled from the spec: the SDK's \<^verbatim>\<open>InterfacePtr\<close>, missing from the sources; the
  interface handle of section 3. It is owned by the snapshot that produced it: \<open>origin\<close>
  is the number of that snapshot.
\<close>

record InterfaceHandle =
  identity :: InterfaceIdentity
  interfaceType :: InterfaceType
  attached :: "DeviceIdentity list"
  origin :: nat

text \<open>
  Modelled from the spec: the interface list and the camera list that the missing system
  object holds; the topology snapshot of section 3, the ordered interface handles and
  the device list flattened across all interfaces.
\<close>

record TopologySnapshot =
  interfaces :: "InterfaceHandle list"
  devices :: "DeviceIdentity list"

text \<open>
  Modelled from the spec: the four callbacks that the event classes of the missing SDK
  declare; the callback bindings of section 3.
\<close>

datatype Binding = OnDeviceArrival | OnDeviceRemoval | OnInterfaceArrival | OnInterfaceRemoval

text \<open>
  Modelled from the spec: where an event of the missing SDK is registered, on the system
  or on one interface; the scope of section 3.
\<close>

datatype Scope = System | Interface InterfaceIdentity

text \<open>
  Modelled from the spec: a registered event of the missing SDK; the event subscription
  of section 3, a scope and the callbacks bound.
\<close>

record EventSubscription =
  scope :: Scope
  bindings :: "Binding list"

text \<open>
  Modelled from the spec: the state of the SDK's \<^verbatim>\<open>System\<close> singleton, missing from
  the sources; the registry of section 4.1. It holds the current snapshot (none before
  the first refresh), the number of snapshots taken so far, and the subscriptions at
  system scope and at interface scope, the latter with the handle they were registered
  on.
\<close>

record TopologyRegistry =
  snapshot :: "TopologySnapshot option"
  epoch :: nat
  systemSubscriptions :: "EventSubscription list"
  interfaceSubscriptions :: "(InterfaceHandle \<times> EventSubscription) list"

text \<open>
  Modelled from the spec: what \<^verbatim>\<open>System::GetInstance\<close> of the missing SDK first
  returns; the registry created on first use, with no snapshot and no subscription.
\<close>

definition new_registry :: TopologyRegistry where
  "new_registry =
     \<lparr>snapshot = None, epoch = 0, systemSubscriptions = [], interfaceSubscriptions = []\<rparr>"

text \<open>
  Modelled from the spec: one interface as the transport layer below the missing SDK
  reports it when asked to enumerate: its identifier, its type and the devices attached
  to it, in order.
\<close>

record Adapter =
  adapterID :: string
  adapterType :: InterfaceType
  adapterDevices :: "DeviceIdentity list"

text \<open>
  What an enumeration finds: the interfaces in order, or nothing at all when the
  transport layer cannot be queried.
\<close>

type_synonym hardware = "Adapter list option"

text \<open>
  Modelled from the spec: how the missing SDK builds its interface list; the handles of
  snapshot \<open>n\<close> for the interfaces found, each with the ordinal of its position, counted
  from \<open>i\<close>.
\<close>

fun handles_from :: "nat \<Rightarrow> nat \<Rightarrow> Adapter list \<Rightarrow> InterfaceHandle list" where
  "handles_from n i [] = []"
| "handles_from n i (a # as) =
     \<lparr>identity = \<lparr>interfaceID = adapterID a, ordinal = i\<rparr>,
      interfaceType = adapterType a, attached = adapterDevices a, origin = n\<rparr>
     # handles_from n (Suc i) as"

text \<open>
  Modelled from the spec: how the missing SDK builds the lists behind
  \<^verbatim>\<open>System::GetInterfaces\<close> and \<^verbatim>\<open>System::GetCameras\<close>; the snapshot of section 3,
  whose device list is the one of all interfaces, flattened.
\<close>

definition take_snapshot :: "nat \<Rightarrow> Adapter list \<Rightarrow> TopologySnapshot" where
  "take_snapshot n adapters =
     \<lparr>interfaces = handles_from n 0 adapters,
      devices = concat (map attached (handles_from n 0 adapters))\<rparr>"

text \<open>
  Modelled from the spec: \<^verbatim>\<open>System::UpdateInterfaceList\<close> of the missing SDK;
  \<open>Refresh\<close> of section 4.1. It re-enumerates the hardware and replaces the stored
  snapshot, which invalidates every handle issued before and the interface-scope
  subscriptions held against them. When the transport layer cannot be queried it fails
  with \<open>EnumerationError\<close> and the registry stays as it was.
\<close>

definition Refresh :: "hardware \<Rightarrow> TopologyRegistry \<Rightarrow> topology_error + TopologyRegistry" where
  "Refresh hw reg =
     (case hw of
        None \<Rightarrow> Inl EnumerationError
      | Some adapters \<Rightarrow>
          Inr (reg\<lparr>snapshot := Some (take_snapshot (Suc (epoch reg)) adapters),
                   epoch := Suc (epoch reg),
                   interfaceSubscriptions := []\<rparr>))"

text \<open>
  Modelled from the spec: \<^verbatim>\<open>System::GetInterfaces\<close> of the missing SDK;
  \<open>GetInterfaces\<close> of section 4.1, a pure read of the current snapshot, except that the
  very first read takes the initial snapshot.
\<close>

definition GetInterfaces ::
  "hardware \<Rightarrow> TopologyRegistry \<Rightarrow> topology_error + (InterfaceHandle list \<times> TopologyRegistry)" where
  "GetInterfaces hw reg =
     (case snapshot reg of
        Some s \<Rightarrow> Inr (interfaces s, reg)
      | None \<Rightarrow>
          (case Refresh hw reg of
             Inl e \<Rightarrow> Inl e
           | Inr reg' \<Rightarrow>
               Inr (case snapshot reg' of None \<Rightarrow> [] | Some s \<Rightarrow> interfaces s, reg')))"

text \<open>
  Modelled from the spec: \<^verbatim>\<open>System::GetCameras\<close> of the missing SDK; \<open>GetDevices\<close> of
  section 4.1, the same contract for the flattened device list.
\<close>

definition GetDevices ::
  "hardware \<Rightarrow> TopologyRegistry \<Rightarrow> topology_error + (DeviceIdentity list \<times> TopologyRegistry)" where
  "GetDevices hw reg =
     (case snapshot reg of
        Some s \<Rightarrow> Inr (devices s, reg)
      | None \<Rightarrow>
          (case Refresh hw reg of
             Inl e \<Rightarrow> Inl e
           | Inr reg' \<Rightarrow>
               Inr (case snapshot reg' of None \<Rightarrow> [] | Some s \<Rightarrow> devices s, reg')))"

text \<open>
  Modelled from the spec: \<^verbatim>\<open>System::RegisterInterfaceEvent\<close> of the missing SDK;
  \<open>RegisterSystemSubscription\<close> of section 4.1. The registry does not enforce
  cardinality, so the subscription is added to the ones already there.
\<close>

definition RegisterSystemSubscription :: "EventSubscription \<Rightarrow> TopologyRegistry \<Rightarrow> TopologyRegistry" where
  "RegisterSystemSubscription sub reg =
     reg\<lparr>systemSubscriptions := systemSubscriptions reg @ [sub]\<rparr>"

text \<open>
  Modelled from the spec: \<^verbatim>\<open>Interface::RegisterEvent\<close> of the missing SDK;
  \<open>RegisterSubscription\<close> of section 4.2, on an interface handle. It fails with
  \<open>StaleHandle\<close> when the snapshot that produced the handle has been superseded by a
  later one.
\<close>

definition RegisterSubscription ::
  "InterfaceHandle \<Rightarrow> EventSubscription \<Rightarrow> TopologyRegistry \<Rightarrow> topology_error + TopologyRegistry" where
  "RegisterSubscription h sub reg =
     (if origin h < epoch reg then Inl StaleHandle
      else Inr (reg\<lparr>interfaceSubscriptions := interfaceSubscriptions reg @ [(h, sub)]\<rparr>))"

subsection \<open>Reading a registry\<close>

text \<open>The handles that the interface-scope subscriptions of a registry are held against.\<close>

definition subscribed_handles :: "TopologyRegistry \<Rightarrow> InterfaceHandle list" where
  "subscribed_handles reg = map fst (interfaceSubscriptions reg)"

text \<open>The handles of the current snapshot: what \<open>GetInterfaces\<close> reads.\<close>

definition current_handles :: "TopologyRegistry \<Rightarrow> InterfaceHandle list" where
  "current_handles reg = (case snapshot reg of None \<Rightarrow> [] | Some s \<Rightarrow> interfaces s)"

text \<open>
  Every handle of the current snapshot was produced by it. This holds of the new
  registry and is kept by every operation.
\<close>

definition registry_ok :: "TopologyRegistry \<Rightarrow> bool" where
  "registry_ok reg = list_all (\<lambda>h. origin h = epoch reg) (current_handles reg)"


section \<open>EnumerationEvents: the system event handler\<close>

text \<open>
  \<^verbatim>\<open>class InterfaceEventHandler\<close>: the handler of device arrivals and removals, built
  either for the system (no interface, number \<open>-1\<close> in an \<^verbatim>\<open>unsigned int\<close>) or for
  one interface and its number.
\<close>

record InterfaceEventHandler =
  m_interface :: "InterfaceHandle option"
  m_interfaceNum :: "32 word"
  m_registerToSystem :: bool

definition InterfaceEventHandler_system :: InterfaceEventHandler where
  "InterfaceEventHandler_system =
     \<lparr>m_interface = None, m_interfaceNum = - 1, m_registerToSystem = True\<rparr>"

definition InterfaceEventHandler_interface :: "InterfaceHandle \<Rightarrow> nat \<Rightarrow> InterfaceEventHandler" where
  "InterfaceEventHandler_interface iface interfaceNum =
     \<lparr>m_interface = Some iface, m_interfaceNum = of_nat interfaceNum, m_registerToSystem = False\<rparr>"

text \<open>
  An \<^verbatim>\<open>InterfaceEvent\<close> is an arrival and a removal event in one: registered, it is a
  subscription with these two bindings, at the scope it was built for.
\<close>

definition as_subscription :: "InterfaceEventHandler \<Rightarrow> EventSubscription" where
  "as_subscription handler =
     \<lparr>scope = (case m_interface handler of None \<Rightarrow> System | Some iface \<Rightarrow> Interface (identity iface)),
      bindings = [OnDeviceArrival, OnDeviceRemoval]\<rparr>"

text \<open>
  The calls that the handler makes on the system object and on interfaces, under the
  names the source uses, in the order in which they are made.
\<close>

datatype sdk_call =
    UpdateInterfaceList
  | GetInterfacesCall
  | RegisterInterfaceEvent EventSubscription
  | RegisterEvent InterfaceHandle EventSubscription

text \<open>
  \<^verbatim>\<open>class SystemEventHandler\<close>: the system it was built with and the two members
  that own the interface event handlers. \<open>calls\<close> and \<open>cout\<close> record what was called and
  what was printed so far.
\<close>

record SystemEventHandler =
  m_system :: TopologyRegistry
  m_interfaceEventHandlerOnSystem :: "InterfaceEventHandler option"
  m_interfaceEventHandlers :: "InterfaceEventHandler list"
  calls :: "sdk_call list"
  cout :: "string list"

text \<open>
  The two nodes that the arrival handler reads through the node maps, a collaborator
  outside the sources: the value of a node, or nothing when the node is not available or
  not readable.
\<close>

record NodeAccessor =
  InterfaceID_node :: "InterfaceHandle \<Rightarrow> string option"
  DeviceSerialNumber_node :: "DeviceIdentity \<Rightarrow> string option"

text \<open>\<^verbatim>\<open>void RegisterInterfaceEventToSystem()\<close>.\<close>

definition RegisterInterfaceEventToSystem :: "SystemEventHandler \<Rightarrow> SystemEventHandler" where
  "RegisterInterfaceEventToSystem self =
     (let handler = (case m_interfaceEventHandlerOnSystem self of
                       None \<Rightarrow> InterfaceEventHandler_system
                     | Some h \<Rightarrow> h)
      in self\<lparr>m_interfaceEventHandlerOnSystem := Some handler,
              m_system := RegisterSystemSubscription (as_subscription handler) (m_system self),
              calls := calls self @ [RegisterInterfaceEvent (as_subscription handler)]\<rparr>)"

text \<open>
  The loop of \<^verbatim>\<open>RegisterInterfaceEvents\<close> from index \<open>i\<close> on, over the interfaces not
  yet visited: a handler is built for the interface and its index and pushed onto the
  vector, the element at index \<open>i\<close> of the vector is registered on the interface, and a
  line is printed. A failing registration throws out of the loop.
\<close>

fun register_loop ::
  "nat \<Rightarrow> InterfaceHandle list \<Rightarrow> SystemEventHandler \<Rightarrow> topology_error + SystemEventHandler" where
  "register_loop i [] self = Inr self"
| "register_loop i (pInterface # rest) self =
     (let interfaceEventHandler = InterfaceEventHandler_interface pInterface i;
          handlers = m_interfaceEventHandlers self @ [interfaceEventHandler];
          sub = as_subscription (handlers ! i)
      in case RegisterSubscription pInterface sub (m_system self) of
           Inl e \<Rightarrow> Inl e
         | Inr reg \<Rightarrow>
             register_loop (Suc i) rest
               (self\<lparr>m_interfaceEventHandlers := handlers,
                     m_system := reg,
                     calls := calls self @ [RegisterEvent pInterface sub],
                     cout := cout self @
                       [''Event handler registered to interface '' @ show_dec i @ ''...'' @ endl]\<rparr>))"

text \<open>\<^verbatim>\<open>void RegisterInterfaceEvents()\<close>.\<close>

definition RegisterInterfaceEvents ::
  "hardware \<Rightarrow> SystemEventHandler \<Rightarrow> topology_error + SystemEventHandler" where
  "RegisterInterfaceEvents hw self =
     (let self1 = (if m_interfaceEventHandlers self \<noteq> []
                   then self\<lparr>m_interfaceEventHandlers := []\<rparr> else self)
      in case GetInterfaces hw (m_system self1) of
           Inl e \<Rightarrow> Inl e
         | Inr (interfaceList, reg) \<Rightarrow>
             (case register_loop 0 interfaceList
                     (self1\<lparr>m_system := reg, calls := calls self1 @ [GetInterfacesCall]\<rparr>) of
                Inl e \<Rightarrow> Inl e
              | Inr self2 \<Rightarrow> Inr (self2\<lparr>cout := cout self2 @ [endl]\<rparr>)))"

text \<open>
  The inner loop of \<^verbatim>\<open>OnInterfaceArrival\<close>: a line for every camera of the arrived
  interface whose serial number node can be read.
\<close>

fun camera_lines :: "NodeAccessor \<Rightarrow> string \<Rightarrow> DeviceIdentity list \<Rightarrow> string list" where
  "camera_lines nodes ifaceID [] = []"
| "camera_lines nodes ifaceID (pCam # rest) =
     (case DeviceSerialNumber_node nodes pCam of
        Some deviceSerialNumber \<Rightarrow>
          [tab @ ''Device '' @ deviceSerialNumber @ '' is connected to interface '' @
           ifaceID @ ''.'' @ endl @ endl]
      | None \<Rightarrow> [])
     @ camera_lines nodes ifaceID rest"

text \<open>
  The outer loop of \<^verbatim>\<open>OnInterfaceArrival\<close>: an interface whose identifier node cannot
  be read, or whose identifier is not the one that arrived, is passed over.
\<close>

fun arrival_lines :: "NodeAccessor \<Rightarrow> string \<Rightarrow> InterfaceHandle list \<Rightarrow> string list" where
  "arrival_lines nodes ifaceID [] = []"
| "arrival_lines nodes ifaceID (pInterface # rest) =
     (case InterfaceID_node nodes pInterface of
        None \<Rightarrow> []
      | Some v \<Rightarrow> if ifaceID \<noteq> v then [] else camera_lines nodes ifaceID (attached pInterface))
     @ arrival_lines nodes ifaceID rest"

text \<open>
  \<^verbatim>\<open>void OnInterfaceArrival(std::string interfaceID)\<close>. \<open>hw\<close> is what the
  transport layer reports at the time of the notification; an error result is the
  exception that leaves the handler.
\<close>

definition SystemEventHandler_OnInterfaceArrival ::
  "NodeAccessor \<Rightarrow> hardware \<Rightarrow> string \<Rightarrow> SystemEventHandler \<Rightarrow> topology_error + SystemEventHandler" where
  "SystemEventHandler_OnInterfaceArrival nodes hw ifaceID self =
     (let self1 = self\<lparr>cout := cout self @
            [''System event handler:'' @ endl,
             tab @ ''Interface '' @ ifaceID @ '' has arrived on the system.'' @ endl @ endl]\<rparr>
      in case Refresh hw (m_system self1) of
           Inl e \<Rightarrow> Inl e
         | Inr reg1 \<Rightarrow>
             (let self2 = self1\<lparr>m_system := reg1, calls := calls self1 @ [UpdateInterfaceList]\<rparr>
              in case GetInterfaces hw (m_system self2) of
                   Inl e \<Rightarrow> Inl e
                 | Inr (interfaceList, reg2) \<Rightarrow>
                     (let self3 = self2\<lparr>m_system := reg2,
                                         calls := calls self2 @ [GetInterfacesCall],
                                         cout := cout self2 @ arrival_lines nodes ifaceID interfaceList\<rparr>
                      in RegisterInterfaceEvents hw (RegisterInterfaceEventToSystem self3))))"

text \<open>\<^verbatim>\<open>void OnInterfaceRemoval(std::string interfaceID)\<close>.\<close>

definition SystemEventHandler_OnInterfaceRemoval ::
  "hardware \<Rightarrow> string \<Rightarrow> SystemEventHandler \<Rightarrow> topology_error + SystemEventHandler" where
  "SystemEventHandler_OnInterfaceRemoval hw ifaceID self =
     (let self1 = self\<lparr>cout := cout self @
            [''System event handler:'' @ endl,
             tab @ ''Interface '' @ ifaceID @ '' was removed from the system.'' @ endl @ endl]\<rparr>
      in case Refresh hw (m_system self1) of
           Inl e \<Rightarrow> Inl e
         | Inr reg1 \<Rightarrow>
             RegisterInterfaceEvents hw
               (RegisterInterfaceEventToSystem
                 (self1\<lparr>m_system := reg1, calls := calls self1 @ [UpdateInterfaceList]\<rparr>)))"

text \<open>
  Re-issuing the registration against every handle of a list, in the order of the list:
  one \<^verbatim>\<open>RegisterEvent\<close> call per handle, with the subscription of a handler built
  for that handle and its index.
\<close>

fun registrations :: "nat \<Rightarrow> InterfaceHandle list \<Rightarrow> sdk_call list" where
  "registrations i [] = []"
| "registrations i (h # hs) =
     RegisterEvent h (as_subscription (InterfaceEventHandler_interface h i))
     # registrations (Suc i) hs"


section \<open>Properties of the address formatting\<close>

subsection \<open>Bytes of a word\<close>

lemma and_255_take_bit: "(x :: 'a::len word) AND 255 = take_bit 8 x"
  by (simp add: take_bit_eq_mask mask_eq_exp_minus_1)

lemma byte_at:
  "drop_bit k ((x :: 'a::len word) AND push_bit k (mask 8)) = take_bit 8 (drop_bit k x)"
  by (rule bit_word_eqI) (auto simp add: bit_simps dest: bit_imp_le_length)

lemma ucast_byte:
  "k + 8 \<le> 32 \<Longrightarrow>
   (ucast (take_bit 8 (drop_bit k (ucast (v :: 64 word) :: 32 word))) :: 64 word) =
   take_bit 8 (drop_bit k v)"
  by (rule bit_word_eqI) (auto simp add: bit_simps)

lemma unat_byte32:
  assumes k: "k + 8 \<le> 32"
  shows "unat (take_bit 8 (drop_bit k (ucast (v :: 64 word) :: 32 word))) =
         unat (take_bit 8 (drop_bit k v))"
proof -
  have "unat (ucast (take_bit 8 (drop_bit k (ucast v :: 32 word))) :: 64 word) =
        unat (take_bit 8 (drop_bit k (ucast v :: 32 word)))"
    by (simp add: unsigned_ucast_eq unsigned_take_bit_eq)
  with ucast_byte[OF k, of v] show ?thesis by simp
qed

lemma byte_lt: "unat (take_bit 8 (x :: 'a::len word)) < 256"
proof -
  have "unat (take_bit 8 x) = take_bit 8 (unat x)"
    by (simp add: unsigned_take_bit_eq)
  also have "\<dots> < 2 ^ 8"
    by (rule take_bit_nat_less_exp)
  finally show ?thesis by simp
qed

lemma masks32:
  "(0xFF000000 :: 32 word) = push_bit 24 (mask 8)"
  "(0x00FF0000 :: 32 word) = push_bit 16 (mask 8)"
  "(0x0000FF00 :: 32 word) = push_bit 8 (mask 8)"
  by (simp_all add: mask_eq_exp_minus_1 push_bit_eq_mult)

lemma masks64:
  "(0xFF0000000000 :: 64 word) = push_bit 40 (mask 8)"
  "(0x00FF00000000 :: 64 word) = push_bit 32 (mask 8)"
  "(0x0000FF000000 :: 64 word) = push_bit 24 (mask 8)"
  "(0x000000FF0000 :: 64 word) = push_bit 16 (mask 8)"
  "(0x00000000FF00 :: 64 word) = push_bit 8 (mask 8)"
  by (simp_all add: mask_eq_exp_minus_1 push_bit_eq_mult)

lemma byte32:
  "k + 8 \<le> 32 \<Longrightarrow>
   unat (drop_bit k ((ucast (v :: 64 word) :: 32 word) AND push_bit k (mask 8))) =
   unat (drop_bit k v AND 0xFF)"
  by (simp only: byte_at unat_byte32 and_255_take_bit)

lemma byte32_0: "unat ((ucast (v :: 64 word) :: 32 word) AND 0xFF) = unat (v AND 0xFF)"
  using unat_byte32[of 0 v] by (simp add: and_255_take_bit)

lemma byte64: "drop_bit k ((v :: 64 word) AND push_bit k (mask 8)) = drop_bit k v AND 0xFF"
  by (simp only: byte_at and_255_take_bit)

text \<open>
  The argument is a signed \<^verbatim>\<open>int64_t\<close>. Whether a right shift of it is taken as
  logical or as arithmetic, the byte that the mask keeps is the same.
\<close>

lemma signed_shift_byte:
  "k + 8 \<le> 64 \<Longrightarrow> signed_drop_bit k (v :: 64 word) AND 0xFF = drop_bit k v AND 0xFF"
  unfolding and_255_take_bit
  by (rule bit_word_eqI) (auto simp add: bit_simps bit_signed_drop_bit_iff)

lemma byte_value_lt: "unat ((x :: 'a::len word) AND 0xFF) < 256"
  unfolding and_255_take_bit by (rule byte_lt)

subsection \<open>Dotted addresses\<close>

text \<open>What \<open>show_dec\<close> writes is the decimal numeral of its argument.\<close>

lemma digit_char_dec:
  assumes "d < 10"
  shows "(of_char (digit_char d) :: nat) = 48 + d"
proof -
  from assms consider "d = 0" | "d = 1" | "d = 2" | "d = 3" | "d = 4" | "d = 5" | "d = 6"
    | "d = 7" | "d = 8" | "d = 9"
    by (auto simp add: numeral_eq_Suc less_Suc_eq)
  then show ?thesis
    by cases (simp_all add: digit_char_def)
qed

lemma dec_value_show_dec: "dec_value (show_dec n) = n"
proof (induction n rule: show_dec.induct)
  case (1 n)
  show ?case
  proof (cases "n < 10")
    case True
    then show ?thesis
      by (simp add: show_dec.simps[of n] dec_value_def digit_char_dec)
  next
    case False
    with 1 have "dec_value (show_dec (n div 10)) = n div 10"
      by simp
    with False show ?thesis
      by (simp add: show_dec.simps[of n] dec_value_def digit_char_dec)
  qed
qed

text \<open>
  Claim C5. For every 64-bit input \<open>v\<close>, \<^verbatim>\<open>GetDottedAddress\<close> returns the decimal
  renderings of \<open>(v >> 24) & 0xFF\<close>, \<open>(v >> 16) & 0xFF\<close>, \<open>(v >> 8) & 0xFF\<close> and
  \<open>v & 0xFF\<close>, in this order, joined by dots: the big-endian dotted quad of the low 32
  bits of \<open>v\<close>. In particular \<open>0xC0A80101\<close> is rendered as \<open>192.168.1.1\<close>.
\<close>

theorem GetDottedAddress_dotted_quad:
  "GetDottedAddress v =
     show_dec (unat (drop_bit 24 v AND 0xFF)) @ ''.'' @
     show_dec (unat (drop_bit 16 v AND 0xFF)) @ ''.'' @
     show_dec (unat (drop_bit 8 v AND 0xFF)) @ ''.'' @
     show_dec (unat (v AND 0xFF)) \<and>
   GetDottedAddress 0xC0A80101 = ''192.168.1.1''"
proof
  show "GetDottedAddress v =
     show_dec (unat (drop_bit 24 v AND 0xFF)) @ ''.'' @
     show_dec (unat (drop_bit 16 v AND 0xFF)) @ ''.'' @
     show_dec (unat (drop_bit 8 v AND 0xFF)) @ ''.'' @
     show_dec (unat (v AND 0xFF))"
    unfolding GetDottedAddress_def Let_def masks32
    by (simp only: byte32 byte32_0 numeral_le_iff semiring_norm add_numeral_left
        numeral_plus_numeral)
next
  show "GetDottedAddress 0xC0A80101 = ''192.168.1.1''"
    by code_simp
qed

theorem GetDottedAddress_dotted_quad_witness:
  "GetDottedAddress 0xFFFFFFFF0A000001 = ''10.0.0.1''"
proof -
  have "GetDottedAddress 0xFFFFFFFF0A000001 =
     show_dec (unat (drop_bit 24 (0xFFFFFFFF0A000001 :: 64 word) AND 0xFF)) @ ''.'' @
     show_dec (unat (drop_bit 16 (0xFFFFFFFF0A000001 :: 64 word) AND 0xFF)) @ ''.'' @
     show_dec (unat (drop_bit 8 (0xFFFFFFFF0A000001 :: 64 word) AND 0xFF)) @ ''.'' @
     show_dec (unat ((0xFFFFFFFF0A000001 :: 64 word) AND 0xFF))"
    using GetDottedAddress_dotted_quad[of "0xFFFFFFFF0A000001"] by (rule conjunct1)
  also have "\<dots> = ''10.0.0.1''"
    by code_simp
  finally show ?thesis .
qed

subsection \<open>MAC addresses\<close>

text \<open>A masked byte, written in a zero-filled field of width two, is its pair of digits.\<close>

lemma show_hex_byte:
  assumes "n < 256"
  shows "setw_fill 2 (CHR ''0'') (show_hex n) = hex_pair n"
proof (cases "n < 16")
  case True
  then show ?thesis
    by (simp add: setw_fill_def show_hex.simps[of n] hex_pair_def digit_char_def)
next
  case False
  with assms have "n div 16 < 16" by simp
  with False show ?thesis
    by (simp add: setw_fill_def show_hex.simps[of n] show_hex.simps[of "n div 16"] hex_pair_def)
qed

lemma hex_field_byte: "hex_field (x AND 0xFF) = hex_pair (unat (x AND 0xFF))"
  unfolding hex_field_def and_255_take_bit by (rule show_hex_byte) (rule byte_lt)

text \<open>
  Claim C6. For every 64-bit input \<open>v\<close>, \<^verbatim>\<open>GetMACAddress\<close> over an integer returns
  six pairs of upper-case hexadecimal digits joined by colons, the bytes of \<open>v\<close> at bit
  40, 32, 24, 16, 8 and 0, each pair zero-padded to width two (17 characters in all). In
  particular \<open>0x001122334455\<close> is rendered as \<open>00:11:22:33:44:55\<close>.
\<close>

theorem GetMACAddress_hex_pairs:
  "GetMACAddress v =
     hex_pair (unat (drop_bit 40 v AND 0xFF)) @ '':'' @
     hex_pair (unat (drop_bit 32 v AND 0xFF)) @ '':'' @
     hex_pair (unat (drop_bit 24 v AND 0xFF)) @ '':'' @
     hex_pair (unat (drop_bit 16 v AND 0xFF)) @ '':'' @
     hex_pair (unat (drop_bit 8 v AND 0xFF)) @ '':'' @
     hex_pair (unat (v AND 0xFF)) \<and>
   length (GetMACAddress v) = 17 \<and>
   GetMACAddress 0x001122334455 = ''00:11:22:33:44:55''"
proof (intro conjI)
  show eq: "GetMACAddress v =
     hex_pair (unat (drop_bit 40 v AND 0xFF)) @ '':'' @
     hex_pair (unat (drop_bit 32 v AND 0xFF)) @ '':'' @
     hex_pair (unat (drop_bit 24 v AND 0xFF)) @ '':'' @
     hex_pair (unat (drop_bit 16 v AND 0xFF)) @ '':'' @
     hex_pair (unat (drop_bit 8 v AND 0xFF)) @ '':'' @
     hex_pair (unat (v AND 0xFF))"
    unfolding GetMACAddress_def Let_def masks64 byte64 hex_field_byte ..
  show "length (GetMACAddress v) = 17"
    unfolding eq by (simp add: hex_pair_def)
  show "GetMACAddress 0x001122334455 = ''00:11:22:33:44:55''"
    by code_simp
qed

theorem GetMACAddress_hex_pairs_witness:
  "GetMACAddress 0xFFFF00B0D0AB0C0F = ''00:B0:D0:AB:0C:0F''"
proof -
  have "GetMACAddress 0xFFFF00B0D0AB0C0F =
     hex_pair (unat (drop_bit 40 (0xFFFF00B0D0AB0C0F :: 64 word) AND 0xFF)) @ '':'' @
     hex_pair (unat (drop_bit 32 (0xFFFF00B0D0AB0C0F :: 64 word) AND 0xFF)) @ '':'' @
     hex_pair (unat (drop_bit 24 (0xFFFF00B0D0AB0C0F :: 64 word) AND 0xFF)) @ '':'' @
     hex_pair (unat (drop_bit 16 (0xFFFF00B0D0AB0C0F :: 64 word) AND 0xFF)) @ '':'' @
     hex_pair (unat (drop_bit 8 (0xFFFF00B0D0AB0C0F :: 64 word) AND 0xFF)) @ '':'' @
     hex_pair (unat ((0xFFFF00B0D0AB0C0F :: 64 word) AND 0xFF))"
    using GetMACAddress_hex_pairs[of "0xFFFF00B0D0AB0C0F"] by (rule conjunct1)
  also have "\<dots> = ''00:B0:D0:AB:0C:0F''"
    by code_simp
  finally show ?thesis .
qed

lemma std_replace_map: "std_replace s old new = map (\<lambda>c. if c = old then new else c) s"
  by (induction s) simp_all

text \<open>
  Claim C7. For every input string, \<^verbatim>\<open>GetMACAddress\<close> over a string replaces every
  \<open>-\<close> by \<open>:\<close> and leaves every other character as it is, so that the result has no
  \<open>-\<close> left; \<open>AA-BB-CC-DD-EE-FF\<close> becomes \<open>AA:BB:CC:DD:EE:FF\<close>, and a MAC address
  already written with colons is returned unchanged.
\<close>

theorem GetMACAddressStr_normalises:
  "GetMACAddressStr s = map (\<lambda>c. if c = CHR ''-'' then CHR '':'' else c) s \<and>
   CHR ''-'' \<notin> set (GetMACAddressStr s) \<and>
   GetMACAddressStr ''AA-BB-CC-DD-EE-FF'' = ''AA:BB:CC:DD:EE:FF'' \<and>
   GetMACAddressStr ''AA:BB:CC:DD:EE:FF'' = ''AA:BB:CC:DD:EE:FF''"
  by (auto simp add: GetMACAddressStr_def std_replace_map)

theorem GetMACAddressStr_normalises_witness:
  "GetMACAddressStr ''00-b0:d0-ab'' = ''00:b0:d0:ab''"
  using GetMACAddressStr_normalises[of "''00-b0:d0-ab''"] by simp

section \<open>Properties of the command line\<close>

lemma parse_loop_step:
  "i < length argv \<Longrightarrow>
   parse_loop i argv opts =
   parse_loop (i + 2) argv (parse_pair (argv ! i) (argv ! (i + 1)) opts)"
  by (subst parse_loop.simps) simp

lemma parse_loop_stop: "\<not> i < length argv \<Longrightarrow> parse_loop i argv opts = opts"
  by (subst parse_loop.simps) simp

text \<open>With nine arguments the loop reads the four pairs at 1, 3, 5 and 7, in this order.\<close>

lemma parse_loop_9:
  assumes "length argv = 9"
  shows "parse_loop 1 argv opts =
     parse_pair (argv ! 7) (argv ! 8) (parse_pair (argv ! 5) (argv ! 6)
       (parse_pair (argv ! 3) (argv ! 4) (parse_pair (argv ! 1) (argv ! 2) opts)))"
proof -
  have n: "(1::nat) + 2 = 3" "(1::nat) + 1 = 2" "(3::nat) + 2 = 5" "(3::nat) + 1 = 4"
    "(5::nat) + 2 = 7" "(5::nat) + 1 = 6" "(7::nat) + 2 = 9" "(7::nat) + 1 = 8"
    by simp_all
  have lt: "1 < length argv" "3 < length argv" "5 < length argv" "7 < length argv"
    "\<not> 9 < length argv"
    using assms by simp_all
  show ?thesis
    unfolding parse_loop_step[OF lt(1), unfolded n] parse_loop_step[OF lt(2), unfolded n]
      parse_loop_step[OF lt(3), unfolded n] parse_loop_step[OF lt(4), unfolded n]
      parse_loop_stop[OF lt(5)] ..
qed

lemma parse_loop_9_Suc:
  "length argv = 9 \<Longrightarrow>
   parse_loop (Suc 0) argv opts =
     parse_pair (argv ! 7) (argv ! 8) (parse_pair (argv ! 5) (argv ! 6)
       (parse_pair (argv ! 3) (argv ! 4) (parse_pair (argv ! 1) (argv ! 2) opts)))"
  using parse_loop_9[of argv opts] by simp

text \<open>The exit code is 0 when the selected case set the flag, and -1 with the usage text
  after everything else when it did not.\<close>

lemma main_exit_code: "snd (main argv) = (if snd (dispatch argv) then 0 else - 1)"
  by (simp add: main_def split: prod.splits)

lemma main_usage:
  "fst (main argv) = banner @ fst (dispatch argv) @ (if snd (dispatch argv) then [] else Usage)"
  by (simp add: main_def split: prod.splits)

lemma main_no_arguments: "main [prog] = (banner @ [ListAllDeviceInfo], 0)"
  by (simp add: main_def dispatch_def)

lemma main_lone_flag: "main [prog, ''-s''] = (banner @ Usage, - 1)"
  by (simp add: main_def dispatch_def)

lemma main_other_argc:
  "length argv \<notin> {1, 2, 3, 9} \<Longrightarrow> main argv = (banner @ Usage, - 1)"
  by (simp add: main_def dispatch_def)

text \<open>
  Claim C8. The claim is that \<^verbatim>\<open>main\<close> returns 0 exactly for the well-formed
  commands and prints the usage text and returns -1 for every other argument list. The
  nine-argument case does not do so: its loop skips a flag it does not know, an option
  that was never given stays the empty string, and the empty string differs from each of
  the three zero constants. Eight arguments of unknown flags are therefore taken as a
  valid request: \<^verbatim>\<open>ConfigureCamera\<close> is called with five empty strings, no usage
  text is printed, and the exit code is 0.
\<close>

theorem main_accepts_unknown_flags:
  "main [''GigEConfig'', ''-x'', ''1'', ''-x'', ''2'', ''-x'', ''3'', ''-x'', ''4''] =
     (banner @ ConfigureCamera [] [] [] [] [], 0)"
  by (simp add: main_def dispatch_def parse_loop_9_Suc parse_pair_def options_valid_def
      no_options_def zeroSerial_def zeroIPAddress_def zeroMACAddress_def)

text \<open>
  Claim C9. Every nine-argument command line whose parsed options pass the validity
  check reaches \<^verbatim>\<open>ConfigureCamera\<close>, which configures nothing: besides the banner,
  the only effect is the line saying that forcing an address, netmask and gateway is not
  supported, and the exit code is 0, not a failure.
\<close>

theorem ConfigureCamera_not_supported:
  assumes "length argv = 9" and "options_valid (parse_loop 1 argv no_options)"
  shows "main argv =
     (banner @
      [Cout (''Spinnaker currently does not support forcing specific IP address, netmask and gateway to device!'' @ endl)],
      0)"
  using assms by (simp add: main_def dispatch_def ConfigureCamera_def Let_def)

theorem ConfigureCamera_not_supported_witness:
  "main [''GigEConfig'', ''-s'', ''12345678'', ''-i'', ''192.168.1.2'',
         ''-n'', ''255.255.255.0'', ''-g'', ''192.168.1.1''] =
     (banner @
      [Cout (''Spinnaker currently does not support forcing specific IP address, netmask and gateway to device!'' @ endl)],
      0)"
  by (rule ConfigureCamera_not_supported)
     (simp_all add: parse_loop_9_Suc parse_pair_def options_valid_def no_options_def
      zeroSerial_def zeroIPAddress_def zeroMACAddress_def)

lemma parse_pair_lower_flag: "parse_pair (lower_flag f) v opts = parse_pair f v opts"
  by (simp add: parse_pair_def lower_flag_def)

lemma length_lower_flags: "length (lower_flags args) = length args"
  by (induction args rule: lower_flags.induct) simp_all

lemma list8:
  assumes "length xs = 8"
  obtains a b c d e f g h where "xs = [a, b, c, d, e, f, g, h]"
  using assms by (auto simp add: numeral_eq_Suc length_Suc_conv)

lemma dispatch_lower_flags: "dispatch (prog # lower_flags args) = dispatch (prog # args)"
proof -
  consider "length args = 0" | "length args = 1" | "length args = 2" | "length args = 8"
    | "length args \<notin> {0, 1, 2, 8}"
    by auto
  then show ?thesis
  proof cases
    case 1
    then show ?thesis by simp
  next
    case 2
    then obtain f where "args = [f]"
      by (auto simp add: length_Suc_conv)
    then show ?thesis
      by (simp add: dispatch_def lower_flag_def)
  next
    case 3
    then obtain f v where "args = [f, v]"
      by (auto simp add: numeral_eq_Suc length_Suc_conv)
    then show ?thesis
      by (simp add: dispatch_def lower_flag_def)
  next
    case 4
    then obtain f1 v1 f2 v2 f3 v3 f4 v4 where "args = [f1, v1, f2, v2, f3, v3, f4, v4]"
      by (rule list8)
    then show ?thesis
      by (simp add: dispatch_def parse_loop_9_Suc parse_pair_lower_flag)
  next
    case 5
    then show ?thesis
      by (simp add: dispatch_def length_lower_flags)
  qed
qed

text \<open>Each of the ten flags stores its value in the local it names.\<close>

lemma parse_pair_flags:
  "parse_pair ''-S'' v opts = opts\<lparr>serialNumber := v\<rparr>"
  "parse_pair ''-s'' v opts = opts\<lparr>serialNumber := v\<rparr>"
  "parse_pair ''-M'' v opts = opts\<lparr>macAddress := GetMACAddressStr v\<rparr>"
  "parse_pair ''-m'' v opts = opts\<lparr>macAddress := GetMACAddressStr v\<rparr>"
  "parse_pair ''-I'' v opts = opts\<lparr>ipAddress := v\<rparr>"
  "parse_pair ''-i'' v opts = opts\<lparr>ipAddress := v\<rparr>"
  "parse_pair ''-N'' v opts = opts\<lparr>subnetMask := v\<rparr>"
  "parse_pair ''-n'' v opts = opts\<lparr>subnetMask := v\<rparr>"
  "parse_pair ''-G'' v opts = opts\<lparr>gateway := v\<rparr>"
  "parse_pair ''-g'' v opts = opts\<lparr>gateway := v\<rparr>"
  by (simp_all add: parse_pair_def)

lemma main_upper_A: "main [prog, ''-A''] = (banner @ [AutoConfigure], 0)"
  by (simp add: main_def dispatch_def)

lemma main_upper_S: "main [prog, ''-S'', v] = (banner @ [ListDeviceInfoBySerial v], 0)"
  by (simp add: main_def dispatch_def)

lemma main_upper_M:
  "main [prog, ''-M'', v] = (banner @ [ListDeviceInfoByMAC (GetMACAddressStr v)], 0)"
  by (simp add: main_def dispatch_def)

lemma parse_upper_serial:
  "parse_loop 1 [prog, ''-S'', s, ''-I'', i, ''-N'', n, ''-G'', g] no_options =
     \<lparr>serialNumber = s, macAddress = [], ipAddress = i, subnetMask = n, gateway = g\<rparr>"
  by (simp add: parse_loop_9_Suc parse_pair_flags no_options_def)

lemma parse_upper_mac:
  "parse_loop 1 [prog, ''-M'', m, ''-I'', i, ''-N'', n, ''-G'', g] no_options =
     \<lparr>serialNumber = [], macAddress = GetMACAddressStr m, ipAddress = i, subnetMask = n,
        gateway = g\<rparr>"
  by (simp add: parse_loop_9_Suc parse_pair_flags no_options_def)

lemma main_upper_serial:
  "main [prog, ''-S'', s, ''-I'', i, ''-N'', n, ''-G'', g] =
     (if i \<noteq> zeroIPAddress \<and> n \<noteq> zeroIPAddress \<and> g \<noteq> zeroIPAddress
      then (banner @ ConfigureCamera s [] i n g, 0) else (banner @ Usage, - 1))"
  using parse_upper_serial[of prog s i n g]
  by (simp add: main_def dispatch_def options_valid_def zeroSerial_def zeroMACAddress_def)

lemma main_upper_mac:
  "main [prog, ''-M'', m, ''-I'', i, ''-N'', n, ''-G'', g] =
     (if i \<noteq> zeroIPAddress \<and> n \<noteq> zeroIPAddress \<and> g \<noteq> zeroIPAddress
      then (banner @ ConfigureCamera [] (GetMACAddressStr m) i n g, 0)
      else (banner @ Usage, - 1))"
  using parse_upper_mac[of prog m i n g]
  by (simp add: main_def dispatch_def options_valid_def zeroSerial_def Let_def)

text \<open>
  Claim C10. An upper-case option flag is accepted and behaves as its lower-case
  counterpart. Putting the flags of a command line in lower case changes neither what
  \<^verbatim>\<open>main\<close> does nor its exit code, for every program name and every argument list.
  And the upper-case flags are recognised: \<open>-A\<close> runs the auto-configuration, \<open>-S\<close> and
  \<open>-M\<close> with a value list the device of that serial number or (normalised) MAC address,
  each with exit code 0; in a nine-argument command line \<open>-S\<close>, \<open>-M\<close>, \<open>-I\<close>, \<open>-N\<close>
  and \<open>-G\<close> store their values as serial number, MAC address, IP address, subnet mask
  and gateway, so that the command reaches \<^verbatim>\<open>ConfigureCamera\<close> with exit code 0 when
  the three addresses are not all zeros, and the usage text with exit code -1 otherwise.
\<close>

theorem upper_case_flags:
  "main (prog # lower_flags args) = main (prog # args) \<and>
   main [prog, ''-A''] = (banner @ [AutoConfigure], 0) \<and>
   main [prog, ''-S'', v] = (banner @ [ListDeviceInfoBySerial v], 0) \<and>
   main [prog, ''-M'', v] = (banner @ [ListDeviceInfoByMAC (GetMACAddressStr v)], 0) \<and>
   parse_loop 1 [prog, ''-S'', s, ''-I'', i, ''-N'', n, ''-G'', g] no_options =
     \<lparr>serialNumber = s, macAddress = [], ipAddress = i, subnetMask = n, gateway = g\<rparr> \<and>
   parse_loop 1 [prog, ''-M'', m, ''-I'', i, ''-N'', n, ''-G'', g] no_options =
     \<lparr>serialNumber = [], macAddress = GetMACAddressStr m, ipAddress = i, subnetMask = n,
        gateway = g\<rparr> \<and>
   main [prog, ''-S'', s, ''-I'', i, ''-N'', n, ''-G'', g] =
     (if i \<noteq> zeroIPAddress \<and> n \<noteq> zeroIPAddress \<and> g \<noteq> zeroIPAddress
      then (banner @ ConfigureCamera s [] i n g, 0) else (banner @ Usage, - 1)) \<and>
   main [prog, ''-M'', m, ''-I'', i, ''-N'', n, ''-G'', g] =
     (if i \<noteq> zeroIPAddress \<and> n \<noteq> zeroIPAddress \<and> g \<noteq> zeroIPAddress
      then (banner @ ConfigureCamera [] (GetMACAddressStr m) i n g, 0)
      else (banner @ Usage, - 1))"
proof (intro conjI)
  show "main (prog # lower_flags args) = main (prog # args)"
    by (simp add: main_def dispatch_lower_flags)
qed (rule main_upper_A main_upper_S main_upper_M parse_upper_serial parse_upper_mac
      main_upper_serial main_upper_mac)+

theorem upper_case_flags_witness:
  "main [''GigEConfig'', ''-S'', ''12345678'', ''-I'', ''192.168.1.2'',
         ''-N'', ''255.255.255.0'', ''-G'', ''192.168.1.1''] =
   main [''GigEConfig'', ''-s'', ''12345678'', ''-i'', ''192.168.1.2'',
         ''-n'', ''255.255.255.0'', ''-g'', ''192.168.1.1''] \<and>
   main [''GigEConfig'', ''-S'', ''12345678'', ''-I'', ''192.168.1.2'',
         ''-N'', ''255.255.255.0'', ''-G'', ''192.168.1.1''] =
     (banner @ ConfigureCamera ''12345678'' [] ''192.168.1.2'' ''255.255.255.0'' ''192.168.1.1'', 0) \<and>
   main [''GigEConfig'', ''-S'', ''12345678'', ''-I'', ''0.0.0.0'',
         ''-N'', ''255.255.255.0'', ''-G'', ''192.168.1.1''] = (banner @ Usage, - 1) \<and>
   main [''GigEConfig'', ''-A''] = (banner @ [AutoConfigure], 0) \<and>
   main [''GigEConfig'', ''-S'', ''12345678''] = (banner @ [ListDeviceInfoBySerial ''12345678''], 0) \<and>
   main [''GigEConfig'', ''-M'', ''AA-BB''] = (banner @ [ListDeviceInfoByMAC ''AA:BB''], 0)"
  using upper_case_flags[where prog = "''GigEConfig''"
      and args = "[''-S'', ''12345678'', ''-I'', ''192.168.1.2'', ''-N'', ''255.255.255.0'',
                   ''-G'', ''192.168.1.1'']"
      and v = "''12345678''" and s = "''12345678''" and i = "''192.168.1.2''"
      and n = "''255.255.255.0''" and g = "''192.168.1.1''" and m = "''AA-BB''"]
    upper_case_flags[where prog = "''GigEConfig''" and args = "[]" and v = "''AA-BB''"
      and s = "''12345678''" and i = "''0.0.0.0''" and n = "''255.255.255.0''"
      and g = "''192.168.1.1''" and m = "''AA-BB''"]
  by (simp add: lower_flag_def zeroIPAddress_def GetMACAddressStr_def)

section \<open>Properties of the topology registry\<close>

subsection \<open>Snapshots\<close>

text \<open>Every handle of a snapshot carries the number of that snapshot.\<close>

lemma origin_handles_from: "h \<in> set (handles_from n i as) \<Longrightarrow> origin h = n"
  by (induction as arbitrary: i) auto

subsection \<open>Stale handles\<close>



lemma registry_ok_new: "registry_ok new_registry"
  by (simp add: registry_ok_def current_handles_def new_registry_def)

lemma registry_ok_Refresh: "Refresh hw reg = Inr reg' \<Longrightarrow> registry_ok reg'"
  by (auto simp add: Refresh_def registry_ok_def current_handles_def take_snapshot_def
      list_all_iff origin_handles_from split: option.splits)

lemma registry_ok_RegisterSubscription:
  "registry_ok reg \<Longrightarrow> RegisterSubscription h sub reg = Inr reg' \<Longrightarrow> registry_ok reg'"
  by (auto simp add: RegisterSubscription_def registry_ok_def current_handles_def split: if_splits)

lemma registry_ok_RegisterSystemSubscription:
  "registry_ok reg \<Longrightarrow> registry_ok (RegisterSystemSubscription sub reg)"
  by (simp add: RegisterSystemSubscription_def registry_ok_def current_handles_def)

lemma registry_ok_GetInterfaces:
  "registry_ok reg \<Longrightarrow> GetInterfaces hw reg = Inr (hs, reg') \<Longrightarrow>
   registry_ok reg' \<and> hs = current_handles reg'"
  by (auto simp add: GetInterfaces_def current_handles_def dest: registry_ok_Refresh
      split: option.splits sum.splits)



text \<open>
  Before the refresh the same registration succeeds, and a refresh that fails for want
  of a transport layer supersedes nothing.
\<close>

lemma RegisterSubscription_current_handle:
  assumes "registry_ok reg" and "h \<in> set (current_handles reg)"
  shows "RegisterSubscription h sub reg =
         Inr (reg\<lparr>interfaceSubscriptions := interfaceSubscriptions reg @ [(h, sub)]\<rparr>)"
  using assms by (simp add: RegisterSubscription_def registry_ok_def list_all_iff)

lemma Refresh_failed: "Refresh None reg = Inl EnumerationError"
  by (simp add: Refresh_def)

section \<open>Properties of the system event handler\<close>

lemma register_loop_fresh:
  assumes "list_all (\<lambda>h. \<not> origin h < epoch (m_system self)) hs"
    and "length (m_interfaceEventHandlers self) = i"
  shows "\<exists>self'. register_loop i hs self = Inr self' \<and>
           calls self' = calls self @ registrations i hs \<and>
           subscribed_handles (m_system self') = subscribed_handles (m_system self) @ hs \<and>
           snapshot (m_system self') = snapshot (m_system self) \<and>
           epoch (m_system self') = epoch (m_system self)"
  using assms
proof (induction hs arbitrary: i self)
  case Nil
  then show ?case by simp
next
  case (Cons h hs)
  let ?handler = "InterfaceEventHandler_interface h i"
  let ?sub = "as_subscription ?handler"
  let ?reg = "(m_system self)\<lparr>interfaceSubscriptions := interfaceSubscriptions (m_system self) @ [(h, ?sub)]\<rparr>"
  let ?next = "self\<lparr>m_interfaceEventHandlers := m_interfaceEventHandlers self @ [?handler],
                     m_system := ?reg,
                     calls := calls self @ [RegisterEvent h ?sub],
                     cout := cout self @
                       [''Event handler registered to interface '' @ show_dec i @ ''...'' @ endl]\<rparr>"
  from Cons.prems(1) have fresh: "\<not> origin h < epoch (m_system self)"
    and rest: "list_all (\<lambda>h. \<not> origin h < epoch (m_system ?next)) hs"
    by simp_all
  from Cons.prems(2) have nth: "(m_interfaceEventHandlers self @ [?handler]) ! i = ?handler"
    by (simp add: nth_append)
  from Cons.prems(2) have len: "length (m_interfaceEventHandlers ?next) = Suc i"
    by simp
  have step: "register_loop i (h # hs) self = register_loop (Suc i) hs ?next"
    using fresh nth by (simp add: RegisterSubscription_def Let_def)
  from Cons.IH[OF rest len] obtain self' where
    "register_loop (Suc i) hs ?next = Inr self'"
    "calls self' = calls ?next @ registrations (Suc i) hs"
    "subscribed_handles (m_system self') = subscribed_handles (m_system ?next) @ hs"
    "snapshot (m_system self') = snapshot (m_system ?next)"
    "epoch (m_system self') = epoch (m_system ?next)"
    by blast
  with step show ?case
    by (simp add: subscribed_handles_def)
qed

lemma RegisterInterfaceEvents_fresh:
  assumes "snapshot (m_system self) = Some s"
    and "list_all (\<lambda>h. \<not> origin h < epoch (m_system self)) (interfaces s)"
  shows "\<exists>self'. RegisterInterfaceEvents hw self = Inr self' \<and>
           calls self' = calls self @ [GetInterfacesCall] @ registrations 0 (interfaces s) \<and>
           subscribed_handles (m_system self') = subscribed_handles (m_system self) @ interfaces s \<and>
           snapshot (m_system self') = snapshot (m_system self) \<and>
           epoch (m_system self') = epoch (m_system self)"
proof -
  let ?self1 = "if m_interfaceEventHandlers self \<noteq> [] then self\<lparr>m_interfaceEventHandlers := []\<rparr> else self"
  let ?start = "?self1\<lparr>m_system := m_system ?self1, calls := calls ?self1 @ [GetInterfacesCall]\<rparr>"
  have sys: "m_system ?self1 = m_system self" and cs: "calls ?self1 = calls self"
    by simp_all
  have get: "GetInterfaces hw (m_system ?self1) = Inr (interfaces s, m_system ?self1)"
    using assms(1) by (simp add: GetInterfaces_def)
  have fresh: "list_all (\<lambda>h. \<not> origin h < epoch (m_system ?start)) (interfaces s)"
    using assms(2) by simp
  have len: "length (m_interfaceEventHandlers ?start) = 0"
    by simp
  from register_loop_fresh[OF fresh len] obtain self2 where
    loop: "register_loop 0 (interfaces s) ?start = Inr self2"
    and "calls self2 = calls ?start @ registrations 0 (interfaces s)"
    and "subscribed_handles (m_system self2) = subscribed_handles (m_system ?start) @ interfaces s"
    and "snapshot (m_system self2) = snapshot (m_system ?start)"
    and "epoch (m_system self2) = epoch (m_system ?start)"
    by blast
  moreover have "RegisterInterfaceEvents hw self = Inr (self2\<lparr>cout := cout self2 @ [endl]\<rparr>)"
    unfolding RegisterInterfaceEvents_def Let_def get using loop by simp
  ultimately show ?thesis
    by simp
qed

lemma Refresh_Some:
  "Refresh (Some adapters) reg =
     Inr (reg\<lparr>snapshot := Some (take_snapshot (Suc (epoch reg)) adapters),
              epoch := Suc (epoch reg), interfaceSubscriptions := []\<rparr>)"
  by (simp add: Refresh_def)

lemma fresh_handles:
  "list_all (\<lambda>h. \<not> origin h < n) (interfaces (take_snapshot n adapters))"
  by (auto simp add: list_all_iff take_snapshot_def dest: origin_handles_from)

lemma OnInterfaceRemoval_registers:
  "\<exists>self' sub. SystemEventHandler_OnInterfaceRemoval (Some adapters) ifaceID self = Inr self' \<and>
     current_handles (m_system self') = handles_from (Suc (epoch (m_system self))) 0 adapters \<and>
     subscribed_handles (m_system self') = current_handles (m_system self') \<and>
     calls self' = calls self @ [UpdateInterfaceList, RegisterInterfaceEvent sub, GetInterfacesCall]
                   @ registrations 0 (current_handles (m_system self'))"
proof -
  let ?n = "Suc (epoch (m_system self))"
  let ?s = "take_snapshot ?n adapters"
  let ?self1 = "self\<lparr>cout := cout self @
            [''System event handler:'' @ endl,
             tab @ ''Interface '' @ ifaceID @ '' was removed from the system.'' @ endl @ endl]\<rparr>"
  let ?reg1 = "(m_system self)\<lparr>snapshot := Some ?s, epoch := ?n, interfaceSubscriptions := []\<rparr>"
  let ?self2 = "RegisterInterfaceEventToSystem (?self1\<lparr>m_system := ?reg1, calls := calls ?self1 @ [UpdateInterfaceList]\<rparr>)"
  have snap: "snapshot (m_system ?self2) = Some ?s"
    and ep: "epoch (m_system ?self2) = ?n"
    and subs: "subscribed_handles (m_system ?self2) = []"
    by (simp_all add: RegisterInterfaceEventToSystem_def RegisterSystemSubscription_def Let_def
        subscribed_handles_def)
  obtain sub where cs: "calls ?self2 = calls self @ [UpdateInterfaceList, RegisterInterfaceEvent sub]"
    by (simp add: RegisterInterfaceEventToSystem_def Let_def)
  have fresh: "list_all (\<lambda>h. \<not> origin h < epoch (m_system ?self2)) (interfaces ?s)"
    unfolding ep by (rule fresh_handles)
  from RegisterInterfaceEvents_fresh[OF snap fresh, of "Some adapters"] obtain self' where
    "RegisterInterfaceEvents (Some adapters) ?self2 = Inr self'"
    "calls self' = calls ?self2 @ [GetInterfacesCall] @ registrations 0 (interfaces ?s)"
    "subscribed_handles (m_system self') = subscribed_handles (m_system ?self2) @ interfaces ?s"
    "snapshot (m_system self') = snapshot (m_system ?self2)"
    by blast
  moreover have "SystemEventHandler_OnInterfaceRemoval (Some adapters) ifaceID self =
      RegisterInterfaceEvents (Some adapters) ?self2"
    by (simp add: SystemEventHandler_OnInterfaceRemoval_def Refresh_Some Let_def)
  ultimately show ?thesis
    using snap subs cs by (simp add: current_handles_def take_snapshot_def)
qed

lemma OnInterfaceArrival_registers:
  "\<exists>self' sub. SystemEventHandler_OnInterfaceArrival nodes (Some adapters) ifaceID self = Inr self' \<and>
     current_handles (m_system self') = handles_from (Suc (epoch (m_system self))) 0 adapters \<and>
     subscribed_handles (m_system self') = current_handles (m_system self') \<and>
     calls self' = calls self @ [UpdateInterfaceList, GetInterfacesCall, RegisterInterfaceEvent sub, GetInterfacesCall]
                   @ registrations 0 (current_handles (m_system self'))"
proof -
  let ?n = "Suc (epoch (m_system self))"
  let ?s = "take_snapshot ?n adapters"
  let ?self1 = "self\<lparr>cout := cout self @
            [''System event handler:'' @ endl,
             tab @ ''Interface '' @ ifaceID @ '' has arrived on the system.'' @ endl @ endl]\<rparr>"
  let ?reg1 = "(m_system self)\<lparr>snapshot := Some ?s, epoch := ?n, interfaceSubscriptions := []\<rparr>"
  let ?self2 = "?self1\<lparr>m_system := ?reg1, calls := calls ?self1 @ [UpdateInterfaceList]\<rparr>"
  let ?self3 = "?self2\<lparr>m_system := ?reg1, calls := calls ?self2 @ [GetInterfacesCall],
                        cout := cout ?self2 @ arrival_lines nodes ifaceID (interfaces ?s)\<rparr>"
  let ?self4 = "RegisterInterfaceEventToSystem ?self3"
  have get: "GetInterfaces (Some adapters) ?reg1 = Inr (interfaces ?s, ?reg1)"
    by (simp add: GetInterfaces_def)
  have snap: "snapshot (m_system ?self4) = Some ?s"
    and ep: "epoch (m_system ?self4) = ?n"
    and subs: "subscribed_handles (m_system ?self4) = []"
    by (simp_all add: RegisterInterfaceEventToSystem_def RegisterSystemSubscription_def Let_def
        subscribed_handles_def)
  obtain sub where cs: "calls ?self4 = calls self @ [UpdateInterfaceList, GetInterfacesCall, RegisterInterfaceEvent sub]"
    by (simp add: RegisterInterfaceEventToSystem_def Let_def)
  have fresh: "list_all (\<lambda>h. \<not> origin h < epoch (m_system ?self4)) (interfaces ?s)"
    unfolding ep by (rule fresh_handles)
  from RegisterInterfaceEvents_fresh[OF snap fresh, of "Some adapters"] obtain self' where
    "RegisterInterfaceEvents (Some adapters) ?self4 = Inr self'"
    "calls self' = calls ?self4 @ [GetInterfacesCall] @ registrations 0 (interfaces ?s)"
    "subscribed_handles (m_system self') = subscribed_handles (m_system ?self4) @ interfaces ?s"
    "snapshot (m_system self') = snapshot (m_system ?self4)"
    by blast
  moreover have "SystemEventHandler_OnInterfaceArrival nodes (Some adapters) ifaceID self =
      RegisterInterfaceEvents (Some adapters) ?self4"
    unfolding SystemEventHandler_OnInterfaceArrival_def Refresh_Some Let_def
    using get by simp
  ultimately show ?thesis
    using snap subs cs by (simp add: current_handles_def take_snapshot_def)
qed

text \<open>
  Claim C2. When an interface arrives or is removed and the transport layer can be
  enumerated, the handler returns, and what it called since the notification is, in this
  order: the refresh (\<^verbatim>\<open>UpdateInterfaceList\<close>), the reading of the new interface
  list, and one \<^verbatim>\<open>RegisterEvent\<close> on every handle of the new list; the only other
  calls are the registration on the system and, on arrival, an earlier reading of the
  list. Afterwards the handles with an interface-scope subscription are exactly those of
  the current list.
\<close>

theorem handlers_refresh_enumerate_register:
  "(\<exists>self' sub.
      SystemEventHandler_OnInterfaceArrival nodes (Some adapters) ifaceID self = Inr self' \<and>
      current_handles (m_system self') = handles_from (Suc (epoch (m_system self))) 0 adapters \<and>
      subscribed_handles (m_system self') = current_handles (m_system self') \<and>
      calls self' =
        calls self @
        [UpdateInterfaceList, GetInterfacesCall, RegisterInterfaceEvent sub, GetInterfacesCall] @
        registrations 0 (current_handles (m_system self'))) \<and>
   (\<exists>self' sub.
      SystemEventHandler_OnInterfaceRemoval (Some adapters) ifaceID self = Inr self' \<and>
      current_handles (m_system self') = handles_from (Suc (epoch (m_system self))) 0 adapters \<and>
      subscribed_handles (m_system self') = current_handles (m_system self') \<and>
      calls self' =
        calls self @ [UpdateInterfaceList, RegisterInterfaceEvent sub, GetInterfacesCall] @
        registrations 0 (current_handles (m_system self')))"
  using OnInterfaceArrival_registers[of nodes adapters ifaceID self]
    OnInterfaceRemoval_registers[of adapters ifaceID self]
  by (rule conjI)

theorem handlers_refresh_enumerate_register_witness:
  "\<exists>self' sub.
      SystemEventHandler_OnInterfaceRemoval
        (Some [\<lparr>adapterID = ''eth0'', adapterType = GEV, adapterDevices = []\<rparr>]) ''usb0''
        \<lparr>m_system = new_registry, m_interfaceEventHandlerOnSystem = None,
           m_interfaceEventHandlers = [], calls = [], cout = []\<rparr> = Inr self' \<and>
      subscribed_handles (m_system self') =
        [\<lparr>identity = \<lparr>interfaceID = ''eth0'', ordinal = 0\<rparr>, interfaceType = GEV,
            attached = [], origin = 1\<rparr>] \<and>
      calls self' =
        [UpdateInterfaceList, RegisterInterfaceEvent sub, GetInterfacesCall,
         RegisterEvent
           \<lparr>identity = \<lparr>interfaceID = ''eth0'', ordinal = 0\<rparr>, interfaceType = GEV,
              attached = [], origin = 1\<rparr>
           \<lparr>scope = Interface \<lparr>interfaceID = ''eth0'', ordinal = 0\<rparr>,
              bindings = [OnDeviceArrival, OnDeviceRemoval]\<rparr>]"
proof -
  let ?self = "\<lparr>m_system = new_registry, m_interfaceEventHandlerOnSystem = None,
           m_interfaceEventHandlers = [], calls = [], cout = []\<rparr>"
  let ?adapters = "[\<lparr>adapterID = ''eth0'', adapterType = GEV, adapterDevices = []\<rparr>]"
  from handlers_refresh_enumerate_register[of undefined ?adapters "''usb0''" ?self]
  obtain self' sub where
    "SystemEventHandler_OnInterfaceRemoval (Some ?adapters) ''usb0'' ?self = Inr self'"
    "current_handles (m_system self') = handles_from (Suc (epoch (m_system ?self))) 0 ?adapters"
    "subscribed_handles (m_system self') = current_handles (m_system self')"
    "calls self' = calls ?self @ [UpdateInterfaceList, RegisterInterfaceEvent sub, GetInterfacesCall] @
        registrations 0 (current_handles (m_system self'))"
    by blast
  then show ?thesis
    by (simp add: new_registry_def as_subscription_def InterfaceEventHandler_interface_def)
qed

text \<open>
  When the transport layer cannot be enumerated the refresh throws, and the exception
  leaves the handler before anything is registered.
\<close>

lemma handlers_throw_without_transport:
  "SystemEventHandler_OnInterfaceArrival nodes None ifaceID self = Inl EnumerationError"
  "SystemEventHandler_OnInterfaceRemoval None ifaceID self = Inl EnumerationError"
  by (simp_all add: SystemEventHandler_OnInterfaceArrival_def SystemEventHandler_OnInterfaceRemoval_def
      Refresh_def Let_def)


end
